theory Spec2Isabelle
  imports Complex_Main "HOL-Library.AList" "HOL-Library.Sublist"
begin

section \<open>JSON values as Python sees them\<close>

text \<open>
  \<^verbatim>\<open>json.load\<close> yields \<^verbatim>\<open>None\<close>, \<^verbatim>\<open>bool\<close>, \<^verbatim>\<open>int\<close>, \<^verbatim>\<open>float\<close>, \<^verbatim>\<open>str\<close>, \<^verbatim>\<open>list\<close> and
  \<^verbatim>\<open>dict\<close> values. A dict keeps its insertion order and is modelled as an association
  list (\<^verbatim>\<open>json.load\<close> produces unique keys; lookup and update act on the first entry of a
  key). The values form a tree, no object is shared between two places, so the in-place
  updates of the source are modelled by returning the updated value. A finite float is
  the rational it denotes; no function of the program computes with it.
\<close>

datatype pyfloat = Finite rat | PosInf | NegInf | NaN

datatype json =
    JNull
  | JBool bool
  | JInt int
  | JFloat pyfloat
  | JStr string
  | JList "json list"
  | JObj "(string \<times> json) list"

text \<open>
  The exceptions that can occur. \<open>OtherException\<close> stands for every exception class
  raised by a collaborator (file system, JSON parser, geometry engine) that is not one of
  the others, with its message.
\<close>

datatype py_exn =
    TopologicalError
  | TypeError
  | AttributeError
  | IndexError
  | KeyError
  | RecursionError
  | OtherException string

text \<open>Sequencing of two steps of which the first may raise.\<close>

definition py_bind :: "py_exn + 'a \<Rightarrow> ('a \<Rightarrow> py_exn + 'b) \<Rightarrow> py_exn + 'b" where
  "py_bind r f = (case r of Inl e \<Rightarrow> Inl e | Inr v \<Rightarrow> f v)"

text \<open>\<^verbatim>\<open>isinstance(x, dict)\<close>.\<close>

fun is_dict :: "json \<Rightarrow> bool" where
  "is_dict (JObj kvs) = True"
| "is_dict JNull = False"
| "is_dict (JBool b) = False"
| "is_dict (JInt i) = False"
| "is_dict (JFloat f) = False"
| "is_dict (JStr s) = False"
| "is_dict (JList xs) = False"

text \<open>The truth value Python gives a JSON value in \<^verbatim>\<open>if x:\<close> and \<^verbatim>\<open>not x\<close>.\<close>

fun py_truthy :: "json \<Rightarrow> bool" where
  "py_truthy JNull = False"
| "py_truthy (JBool b) = b"
| "py_truthy (JInt i) = (i \<noteq> 0)"
| "py_truthy (JFloat (Finite r)) = (r \<noteq> 0)"
| "py_truthy (JFloat _) = True"
| "py_truthy (JStr s) = (s \<noteq> [])"
| "py_truthy (JList xs) = (xs \<noteq> [])"
| "py_truthy (JObj kvs) = (kvs \<noteq> [])"

text \<open>
  \<^verbatim>\<open>k in x\<close> for a string \<open>k\<close>: key membership in a dict, element membership in a list,
  substring test in a string, \<^verbatim>\<open>TypeError\<close> on \<^verbatim>\<open>None\<close>, booleans and numbers.
\<close>

fun py_in :: "string \<Rightarrow> json \<Rightarrow> py_exn + bool" where
  "py_in k (JObj kvs) = Inr (map_of kvs k \<noteq> None)"
| "py_in k (JList xs) = Inr (JStr k \<in> set xs)"
| "py_in k (JStr s) = Inr (sublist k s)"
| "py_in k JNull = Inl TypeError"
| "py_in k (JBool b) = Inl TypeError"
| "py_in k (JInt i) = Inl TypeError"
| "py_in k (JFloat f) = Inl TypeError"

text \<open>\<^verbatim>\<open>x[k]\<close> for a string \<open>k\<close>: only a dict can be indexed by a string.\<close>

fun py_getitem :: "json \<Rightarrow> string \<Rightarrow> py_exn + json" where
  "py_getitem (JObj kvs) k = (case map_of kvs k of None \<Rightarrow> Inl KeyError | Some v \<Rightarrow> Inr v)"
| "py_getitem JNull k = Inl TypeError"
| "py_getitem (JBool b) k = Inl TypeError"
| "py_getitem (JInt i) k = Inl TypeError"
| "py_getitem (JFloat f) k = Inl TypeError"
| "py_getitem (JStr s) k = Inl TypeError"
| "py_getitem (JList xs) k = Inl TypeError"

text \<open>
  \<^verbatim>\<open>x[0]\<close>: the first element of a list, the first character of a string,
  \<^verbatim>\<open>IndexError\<close> when these are empty; a dict from JSON has string keys only, so the key
  \<open>0\<close> is missing; \<^verbatim>\<open>None\<close>, booleans and numbers cannot be indexed.
\<close>

fun py_first :: "json \<Rightarrow> py_exn + json" where
  "py_first (JList (x # xs)) = Inr x"
| "py_first (JList []) = Inl IndexError"
| "py_first (JStr (c # cs)) = Inr (JStr [c])"
| "py_first (JStr []) = Inl IndexError"
| "py_first (JObj kvs) = Inl KeyError"
| "py_first JNull = Inl TypeError"
| "py_first (JBool b) = Inl TypeError"
| "py_first (JInt i) = Inl TypeError"
| "py_first (JFloat f) = Inl TypeError"

text \<open>\<^verbatim>\<open>x[k] = v\<close> for a string \<open>k\<close>: a dict keeps the position of an existing key and
  appends a new one.\<close>

fun py_setitem :: "json \<Rightarrow> string \<Rightarrow> json \<Rightarrow> py_exn + json" where
  "py_setitem (JObj kvs) k v = Inr (JObj (AList.update k v kvs))"
| "py_setitem JNull k v = Inl TypeError"
| "py_setitem (JBool b) k v = Inl TypeError"
| "py_setitem (JInt i) k v = Inl TypeError"
| "py_setitem (JFloat f) k v = Inl TypeError"
| "py_setitem (JStr s) k v = Inl TypeError"
| "py_setitem (JList xs) k v = Inl TypeError"

text \<open>\<^verbatim>\<open>x.get(k, default)\<close>: only a dict has the method.\<close>

fun py_get :: "json \<Rightarrow> string \<Rightarrow> json \<Rightarrow> py_exn + json" where
  "py_get (JObj kvs) k dflt = Inr (case map_of kvs k of None \<Rightarrow> dflt | Some v \<Rightarrow> v)"
| "py_get JNull k dflt = Inl AttributeError"
| "py_get (JBool b) k dflt = Inl AttributeError"
| "py_get (JInt i) k dflt = Inl AttributeError"
| "py_get (JFloat f) k dflt = Inl AttributeError"
| "py_get (JStr s) k dflt = Inl AttributeError"
| "py_get (JList xs) k dflt = Inl AttributeError"

section \<open>The coordinate depth normalizer\<close>

text \<open>
  \<^verbatim>\<open>
  def depth(lst):
      if isinstance(lst, list) and lst:
          return 1 + depth(lst[0])
      return 0
  \<close>
  The recursion follows first elements only, one interpreter frame per list level and
  one for the value that ends the descent. The first argument is the number of nested
  calls of \<^verbatim>\<open>depth\<close> the interpreter's recursion limit still allows at the place where
  \<^verbatim>\<open>fix_geojson_structure\<close> calls it; a call beyond it raises \<^verbatim>\<open>RecursionError\<close>, which
  no frame of \<^verbatim>\<open>depth\<close> catches.
\<close>

fun depth :: "nat \<Rightarrow> json \<Rightarrow> py_exn + nat" where
  "depth 0 lst = Inl RecursionError"
| "depth (Suc frames) (JList (x # xs)) = py_bind (depth frames x) (\<lambda>d. Inr (1 + d))"
| "depth (Suc frames) (JList []) = Inr 0"
| "depth (Suc frames) JNull = Inr 0"
| "depth (Suc frames) (JBool b) = Inr 0"
| "depth (Suc frames) (JInt i) = Inr 0"
| "depth (Suc frames) (JFloat f) = Inr 0"
| "depth (Suc frames) (JStr s) = Inr 0"
| "depth (Suc frames) (JObj kvs) = Inr 0"

text \<open>
  \<^verbatim>\<open>fix_geojson_structure\<close>. The guard is Python's short-circuit \<^verbatim>\<open>or\<close>: the membership
  tests run only on a truthy value, and the second only when the first found the key.
  The depth is measured before the type is looked at. The assignment
  \<^verbatim>\<open>geom_dict["coordinates"] = coords\<close> is executed in every branch of the two recognised
  types.
\<close>

definition fix_geojson_structure :: "nat \<Rightarrow> json \<Rightarrow> py_exn + json" where
  "fix_geojson_structure frames geom_dict =
     (if \<not> py_truthy geom_dict then Inr geom_dict
      else py_bind (py_in ''type'' geom_dict) (\<lambda>has_type.
        if \<not> has_type then Inr geom_dict
        else py_bind (py_in ''coordinates'' geom_dict) (\<lambda>has_coords.
          if \<not> has_coords then Inr geom_dict
          else py_bind (py_getitem geom_dict ''type'') (\<lambda>gtype.
               py_bind (py_getitem geom_dict ''coordinates'') (\<lambda>coords.
               py_bind (depth frames coords) (\<lambda>d.
                 if gtype = JStr ''Polygon'' then
                   py_bind (if d = 2 then Inr (JList [coords])
                            else if d > 3 then py_first coords
                            else Inr coords)
                     (\<lambda>coords'. py_setitem geom_dict ''coordinates'' coords')
                 else if gtype = JStr ''MultiPolygon'' then
                   py_bind (if d = 3 then Inr (JList [coords])
                            else if d > 4 then py_first coords
                            else Inr coords)
                     (\<lambda>coords'. py_setitem geom_dict ''coordinates'' coords')
                 else Inr geom_dict))))))"

section \<open>The geometry engine\<close>

text \<open>
  The geometry library is an external collaborator and a parameter of the model.
  \<open>shape\<close> parses a geometry dict and may raise; \<open>is_valid\<close> is the validity property,
  taken not to raise; \<open>buffer_zero\<close> is \<^verbatim>\<open>geom.buffer(0)\<close> and may raise; \<open>truthy\<close> is the
  truth value Python gives a geometry object in \<^verbatim>\<open>if geom_fixed:\<close> (the library makes an
  empty geometry falsy); \<open>mapping\<close> exports an object as a dict.
\<close>

record 'g engine =
  shape :: "json \<Rightarrow> py_exn + 'g"
  is_valid :: "'g \<Rightarrow> bool"
  buffer_zero :: "'g \<Rightarrow> py_exn + 'g"
  truthy :: "'g \<Rightarrow> bool"
  mapping :: "'g \<Rightarrow> json"

section \<open>The validity repairer\<close>

text \<open>
  \<^verbatim>\<open>
  try:
      if geom.is_valid: return geom
      fixed = geom.buffer(0)
      if fixed.is_valid: return fixed
  except TopologicalError:
      pass
  return None
  \<close>
  The result is \<open>Inr (Some g)\<close> for a returned object, \<open>Inr None\<close> for \<^verbatim>\<open>None\<close> and
  \<open>Inl e\<close> for an exception that leaves the function.
\<close>

definition fix_polygon_validity :: "'g engine \<Rightarrow> 'g \<Rightarrow> py_exn + 'g option" where
  "fix_polygon_validity eng geom =
     (if is_valid eng geom then Inr (Some geom)
      else (case buffer_zero eng geom of
              Inl e \<Rightarrow> (if e = TopologicalError then Inr None else Inl e)
            | Inr fixed \<Rightarrow> (if is_valid eng fixed then Inr (Some fixed) else Inr None)))"

section \<open>The repair run\<close>

text \<open>
  What a run does to its surroundings is a list of events in the order they happen:
  a value set on the progress variable, the output file opened for writing, the document
  handed to \<^verbatim>\<open>json.dump\<close> with its \<^verbatim>\<open>ensure_ascii\<close> and \<^verbatim>\<open>indent\<close> arguments, and the two
  message boxes. \<open>ShowError e\<close> is \<^verbatim>\<open>messagebox.showerror\<close> called with \<^verbatim>\<open>str(e)\<close>. The
  progress variable and the message boxes are assumed not to raise.
\<close>

datatype event =
    Progress int
  | OpenOutput
  | JsonDump json bool nat
  | ShowInfo
  | ShowError py_exn

text \<open>
  The file system and the JSON reader and writer are parameters: what opening and
  parsing the input file gives, whether opening the output file raises, and whether
  \<^verbatim>\<open>json.dump\<close> raises on a document.
\<close>

record files =
  load_input :: "py_exn + json"
  open_output :: "py_exn option"
  dump_raises :: "json \<Rightarrow> py_exn option"

text \<open>
  \<^verbatim>\<open>len(x)\<close> and \<^verbatim>\<open>for feat in x\<close> on the value of \<^verbatim>\<open>data.get("features", [])\<close>. A dict is
  iterated by its keys and a string by its characters; iterating a string never gets
  past its first character here, since a string has no \<^verbatim>\<open>get\<close>.
\<close>

fun py_len :: "json \<Rightarrow> py_exn + nat" where
  "py_len (JList xs) = Inr (length xs)"
| "py_len (JObj kvs) = Inr (length kvs)"
| "py_len (JStr s) = Inr (length s)"
| "py_len JNull = Inl TypeError"
| "py_len (JBool b) = Inl TypeError"
| "py_len (JInt i) = Inl TypeError"
| "py_len (JFloat f) = Inl TypeError"

fun py_iter :: "json \<Rightarrow> py_exn + json list" where
  "py_iter (JList xs) = Inr xs"
| "py_iter (JObj kvs) = Inr (map (\<lambda>p. JStr (fst p)) kvs)"
| "py_iter (JStr s) = Inr (map (\<lambda>c. JStr [c]) s)"
| "py_iter JNull = Inl TypeError"
| "py_iter (JBool b) = Inl TypeError"
| "py_iter (JInt i) = Inl TypeError"
| "py_iter (JFloat f) = Inl TypeError"

text \<open>
  One pass of the loop body up to the point where it leaves the \<^verbatim>\<open>if geom_dict:\<close> block.
  \<open>Continue\<close> is the \<^verbatim>\<open>continue\<close> of the parse failure, which skips the rest of the body;
  \<open>FallThrough kept\<close> reaches the end of the body, with \<open>kept\<close> the feature appended to
  \<^verbatim>\<open>fixed_features\<close>, if one was.
\<close>

datatype body_exit = Continue | FallThrough "json option"

definition process_feature :: "'g engine \<Rightarrow> nat \<Rightarrow> json \<Rightarrow> py_exn + body_exit" where
  "process_feature eng frames feat =
     py_bind (py_get feat ''geometry'' JNull) (\<lambda>geom_dict.
       if py_truthy geom_dict then
         py_bind (fix_geojson_structure frames geom_dict) (\<lambda>geom_dict'.
           case shape eng geom_dict' of
             Inl e \<Rightarrow> Inr Continue
           | Inr geom \<Rightarrow>
               py_bind (fix_polygon_validity eng geom) (\<lambda>geom_fixed.
                 case geom_fixed of
                   None \<Rightarrow> Inr (FallThrough None)
                 | Some g \<Rightarrow>
                     if truthy eng g then
                       py_bind (py_setitem feat ''geometry'' (mapping eng g)) (\<lambda>feat'.
                         Inr (FallThrough (Some feat')))
                     else Inr (FallThrough None)))
       else Inr (FallThrough None))"

text \<open>
  The loop over the features, with \<^verbatim>\<open>fixed_features\<close> and \<^verbatim>\<open>done\<close> as accumulators.
  \<^verbatim>\<open>int(60 * done / max(1, total))\<close> divides two non-negative numbers, so truncation is
  the floor; the float quotient has the same integer part as the exact one for every
  feature count a document in memory can have.
\<close>

fun feature_loop ::
  "'g engine \<Rightarrow> nat \<Rightarrow> nat \<Rightarrow> json list \<Rightarrow> json list \<Rightarrow> nat
     \<Rightarrow> event list \<times> (py_exn + json list)" where
  "feature_loop eng frames ntotal [] fixed_features ndone = ([], Inr fixed_features)"
| "feature_loop eng frames ntotal (feat # rest) fixed_features ndone =
     (case process_feature eng frames feat of
        Inl e \<Rightarrow> ([], Inl e)
      | Inr Continue \<Rightarrow> feature_loop eng frames ntotal rest fixed_features ndone
      | Inr (FallThrough kept) \<Rightarrow>
          (let fixed_features' = (case kept of None \<Rightarrow> fixed_features
                                  | Some f \<Rightarrow> fixed_features @ [f]);
               ndone' = ndone + 1;
               res = feature_loop eng frames ntotal rest fixed_features' ndone'
           in (Progress (30 + (60 * int ndone') div int (max 1 ntotal)) # fst res, snd res)))"

text \<open>
  The body of the \<^verbatim>\<open>try\<close> block: the events it causes and the exception that ends it, if
  any.
\<close>

definition repair_body :: "'g engine \<Rightarrow> nat \<Rightarrow> files \<Rightarrow> event list \<times> py_exn option" where
  "repair_body eng frames fs =
     (case load_input fs of
        Inl e \<Rightarrow> ([Progress 10], Some e)
      | Inr data \<Rightarrow>
          (case py_bind (py_get data ''features'' (JList [])) (\<lambda>fv.
                  py_bind (py_len fv) (\<lambda>ntotal.
                    py_bind (py_iter fv) (\<lambda>feats. Inr (ntotal, feats)))) of
             Inl e \<Rightarrow> ([Progress 10, Progress 30], Some e)
           | Inr (ntotal, feats) \<Rightarrow>
               (case feature_loop eng frames ntotal feats [] 0 of
                  (evs, Inl e) \<Rightarrow> ([Progress 10, Progress 30] @ evs, Some e)
                | (evs, Inr fixed_features) \<Rightarrow>
                    (case py_setitem data ''features'' (JList fixed_features) of
                       Inl e \<Rightarrow> ([Progress 10, Progress 30] @ evs, Some e)
                     | Inr data' \<Rightarrow>
                         (case open_output fs of
                            Some e \<Rightarrow> ([Progress 10, Progress 30] @ evs, Some e)
                          | None \<Rightarrow>
                              (case dump_raises fs data' of
                                 Some e \<Rightarrow>
                                   ([Progress 10, Progress 30] @ evs
                                      @ [OpenOutput, JsonDump data' False 2], Some e)
                               | None \<Rightarrow>
                                   ([Progress 10, Progress 30] @ evs
                                      @ [OpenOutput, JsonDump data' False 2,
                                         Progress 100, ShowInfo], None)))))))"

text \<open>
  \<^verbatim>\<open>repair_geojson_no_gpd\<close>: the body, and the handler of \<^verbatim>\<open>except Exception as e\<close>.
  \<open>frames\<close> is the recursion allowance of \<^verbatim>\<open>depth\<close>, the same at every call of a run.
\<close>

definition repair_geojson_no_gpd :: "'g engine \<Rightarrow> nat \<Rightarrow> files \<Rightarrow> event list" where
  "repair_geojson_no_gpd eng frames fs =
     (case repair_body eng frames fs of
        (evs, None) \<Rightarrow> evs
      | (evs, Some e) \<Rightarrow> evs @ [ShowError e])"

section \<open>Observations on a run\<close>

text \<open>The terminal calls on the outcome channel are the two message boxes.\<close>

fun is_outcome :: "event \<Rightarrow> bool" where
  "is_outcome ShowInfo = True"
| "is_outcome (ShowError e) = True"
| "is_outcome (Progress v) = False"
| "is_outcome OpenOutput = False"
| "is_outcome (JsonDump d a i) = False"

text \<open>The events that touch the output file.\<close>

fun is_output :: "event \<Rightarrow> bool" where
  "is_output OpenOutput = True"
| "is_output (JsonDump d a i) = True"
| "is_output (Progress v) = False"
| "is_output ShowInfo = False"
| "is_output (ShowError e) = False"

text \<open>The values the progress variable is set to, in order.\<close>

fun progress_values :: "event list \<Rightarrow> int list" where
  "progress_values [] = []"
| "progress_values (Progress v # evs) = v # progress_values evs"
| "progress_values (OpenOutput # evs) = progress_values evs"
| "progress_values (JsonDump d a i # evs) = progress_values evs"
| "progress_values (ShowInfo # evs) = progress_values evs"
| "progress_values (ShowError e # evs) = progress_values evs"

text \<open>The value set after the \<open>i\<close>-th counted feature of \<open>n\<close>.\<close>

definition progress_at :: "nat \<Rightarrow> nat \<Rightarrow> int" where
  "progress_at n i = 30 + (60 * int i) div int (max 1 n)"

text \<open>A run succeeded when it reached the success message box.\<close>

definition succeeded :: "event list \<Rightarrow> bool" where
  "succeeded evs = (ShowInfo \<in> set evs)"

text \<open>
  The feature a pass of the loop body appends to \<^verbatim>\<open>fixed_features\<close>, if it appends one:
  the feature survives; otherwise it is dropped (or the run is aborted).
\<close>

definition kept_feature :: "'g engine \<Rightarrow> nat \<Rightarrow> json \<Rightarrow> json option" where
  "kept_feature eng frames feat =
     (case process_feature eng frames feat of
        Inr (FallThrough (Some f)) \<Rightarrow> Some f
      | _ \<Rightarrow> None)"

text \<open>
  The number of list levels of a value along first elements: what \<^verbatim>\<open>depth\<close> returns
  when the recursion limit lets it return.
\<close>

fun nesting :: "json \<Rightarrow> nat" where
  "nesting (JList (x # xs)) = 1 + nesting x"
| "nesting (JList []) = 0"
| "nesting JNull = 0"
| "nesting (JBool b) = 0"
| "nesting (JInt i) = 0"
| "nesting (JFloat f) = 0"
| "nesting (JStr s) = 0"
| "nesting (JObj kvs) = 0"

text \<open>
  What becomes of a feature, read off the steps of the pass in terms of the normalizer,
  the engine and the repairer: its geometry is absent, null or otherwise falsy; the
  normalized geometry does not parse; the repairer answers \<^verbatim>\<open>None\<close>; the repaired object
  is falsy; the repaired object \<open>g\<close> is truthy and the feature survives; or an exception
  leaves the pass and aborts the run.
\<close>

datatype 'g fate =
    NoGeometry
  | ParseFailure
  | Unrepairable
  | EmptyResult
  | Survives 'g
  | Aborts py_exn

definition fate :: "'g engine \<Rightarrow> nat \<Rightarrow> json \<Rightarrow> 'g fate" where
  "fate eng frames feat =
     (case feat of
        JObj fkvs \<Rightarrow>
          (case map_of fkvs ''geometry'' of
             None \<Rightarrow> NoGeometry
           | Some gd \<Rightarrow>
               if \<not> py_truthy gd then NoGeometry
               else (case fix_geojson_structure frames gd of
                       Inl e \<Rightarrow> Aborts e
                     | Inr gd' \<Rightarrow>
                         (case shape eng gd' of
                            Inl e \<Rightarrow> ParseFailure
                          | Inr geom \<Rightarrow>
                              (case fix_polygon_validity eng geom of
                                 Inl e \<Rightarrow> Aborts e
                               | Inr None \<Rightarrow> Unrepairable
                               | Inr (Some g) \<Rightarrow>
                                   if truthy eng g then Survives g else EmptyResult))))
      | _ \<Rightarrow> Aborts AttributeError)"

text \<open>
  The feature written for a surviving feature: the feature with its \<open>geometry\<close> set to
  the export of the repaired object.
\<close>

definition survivor :: "'g engine \<Rightarrow> nat \<Rightarrow> json \<Rightarrow> json option" where
  "survivor eng frames feat =
     (case fate eng frames feat of
        Survives g \<Rightarrow>
          (case feat of
             JObj fkvs \<Rightarrow> Some (JObj (AList.update ''geometry'' (mapping eng g) fkvs))
           | _ \<Rightarrow> None)
      | _ \<Rightarrow> None)"

text \<open>The features a run drops without aborting, of all four kinds.\<close>

definition dropped :: "'g engine \<Rightarrow> nat \<Rightarrow> json \<Rightarrow> bool" where
  "dropped eng frames feat =
     (fate eng frames feat = NoGeometry \<or> fate eng frames feat = ParseFailure
      \<or> fate eng frames feat = Unrepairable \<or> fate eng frames feat = EmptyResult)"

text \<open>The two kinds of dropped feature that a parse failure and a failed repair make.\<close>

definition parse_or_repair_failure :: "'g engine \<Rightarrow> nat \<Rightarrow> json \<Rightarrow> bool" where
  "parse_or_repair_failure eng frames feat =
     (fate eng frames feat = ParseFailure \<or> fate eng frames feat = Unrepairable)"

subsection \<open>A stand-in engine and file system for concrete runs\<close>

text \<open>
  The geometry object of the stand-in engine is the geometry dict itself. It parses a
  dict whose \<open>coordinates\<close> are a list, reads validity from a \<open>valid\<close> entry, and its
  buffer either raises a topological error, returns the object as it is, or returns it
  marked valid, as a \<open>buffer\<close> entry says. An object with empty coordinates is falsy, as
  an empty geometry is.
\<close>

definition entry :: "json \<Rightarrow> string \<Rightarrow> json option" where
  "entry g k = (case g of JObj kvs \<Rightarrow> map_of kvs k | _ \<Rightarrow> None)"

definition stub_shape :: "json \<Rightarrow> py_exn + json" where
  "stub_shape g =
     (case entry g ''coordinates'' of
        Some (JList cs) \<Rightarrow> Inr g
      | _ \<Rightarrow> Inl (OtherException ''cannot parse''))"

definition stub_buffer :: "json \<Rightarrow> py_exn + json" where
  "stub_buffer g =
     (if entry g ''buffer'' = Some (JStr ''raises'') then Inl TopologicalError
      else if entry g ''buffer'' = Some (JStr ''same'') then Inr g
      else (case g of JObj kvs \<Rightarrow> Inr (JObj (AList.update ''valid'' (JBool True) kvs))
            | _ \<Rightarrow> Inr g))"

definition stub_engine :: "json engine" where
  "stub_engine =
     \<lparr> shape = stub_shape,
       is_valid = (\<lambda>g. entry g ''valid'' \<noteq> Some (JBool False)),
       buffer_zero = stub_buffer,
       truthy = (\<lambda>g. entry g ''coordinates'' \<noteq> Some (JList [])),
       mapping = (\<lambda>g. g) \<rparr>"

text \<open>An input file that parses to \<open>data\<close> and an output file that can be written.\<close>

definition good_files :: "json \<Rightarrow> files" where
  "good_files data =
     \<lparr> load_input = Inr data, open_output = None, dump_raises = (\<lambda>d. None) \<rparr>"

text \<open>An input file whose loading raises \<open>e\<close>.\<close>

definition bad_input :: "py_exn \<Rightarrow> files" where
  "bad_input e =
     \<lparr> load_input = Inl e, open_output = None, dump_raises = (\<lambda>d. None) \<rparr>"

text \<open>Sample geometries, features and documents.\<close>

definition ring :: json where
  "ring = JList [JList [JInt 0, JInt 0], JList [JInt 1, JInt 0],
                 JList [JInt 1, JInt 1], JList [JInt 0, JInt 0]]"

definition polygon :: "json \<Rightarrow> json" where
  "polygon coords = JObj [(''type'', JStr ''Polygon''), (''coordinates'', coords)]"

definition multipolygon :: "json \<Rightarrow> json" where
  "multipolygon coords = JObj [(''type'', JStr ''MultiPolygon''), (''coordinates'', coords)]"

definition feature :: "string \<Rightarrow> json \<Rightarrow> json" where
  "feature name geom =
     JObj [(''type'', JStr ''Feature''),
           (''properties'', JObj [(''name'', JStr name)]),
           (''geometry'', geom)]"

definition collection :: "json list \<Rightarrow> json" where
  "collection feats =
     JObj [(''type'', JStr ''FeatureCollection''), (''name'', JStr ''sample''),
           (''features'', JList feats)]"

text \<open>
  Geometries the stand-in engine finds invalid: one its buffer repairs, one on which the
  buffer raises a topological error, one the buffer leaves invalid.
\<close>

definition bowtie :: json where
  "bowtie = JObj [(''type'', JStr ''Polygon''), (''coordinates'', JList [ring]),
                  (''valid'', JBool False)]"

definition collapsed :: json where
  "collapsed = JObj [(''type'', JStr ''Polygon''), (''coordinates'', JList [ring]),
                     (''valid'', JBool False), (''buffer'', JStr ''raises'')]"

definition stubborn :: json where
  "stubborn = JObj [(''type'', JStr ''Polygon''), (''coordinates'', JList [ring]),
                    (''valid'', JBool False), (''buffer'', JStr ''same'')]"

text \<open>
  Sample features: a valid polygon, a bare ring given as polygon coordinates, coordinates
  that are no list, a null geometry, and a geometry the buffer cannot repair. Sample runs
  use a recursion allowance of 1000 frames, the interpreter's default limit.
\<close>

definition feature_a :: json where
  "feature_a = feature ''a'' (polygon (JList [ring]))"

definition feature_b :: json where
  "feature_b = feature ''b'' (polygon ring)"

definition feature_c :: json where
  "feature_c = feature ''c'' (polygon (JStr ''not-a-list''))"

definition feature_d :: json where
  "feature_d = feature ''d'' JNull"

definition feature_e :: json where
  "feature_e = feature ''e'' collapsed"

text \<open>A feature with an empty polygon, which parses to a falsy object.\<close>

definition feature_f :: json where
  "feature_f = feature ''f'' (polygon (JList []))"

text \<open>A value wrapped in \<open>k\<close> one-element lists.\<close>

fun nest :: "nat \<Rightarrow> json \<Rightarrow> json" where
  "nest 0 x = x"
| "nest (Suc k) x = JList [nest k x]"

section \<open>Basic facts\<close>

lemma py_bind_Inl [simp]: "py_bind (Inl e) f = Inl e"
  by (simp add: py_bind_def)

lemma py_bind_Inr [simp]: "py_bind (Inr v) f = f v"
  by (simp add: py_bind_def)

lemma py_setitem_dict: "py_setitem (JObj kvs) k = (\<lambda>v. Inr (JObj (AList.update k v kvs)))"
  by (rule ext) simp

text \<open>
  \<^verbatim>\<open>depth\<close> returns the nesting of its argument when that is below the number of frames
  it may use, and raises \<^verbatim>\<open>RecursionError\<close> otherwise.
\<close>

lemma depth_eq:
  "depth frames x = (if nesting x < frames then Inr (nesting x) else Inl RecursionError)"
  by (induction frames x rule: depth.induct) simp_all

lemma depth_pos_first:
  assumes "depth frames c = Inr d" and "0 < d"
  shows "\<exists>x xs. c = JList (x # xs) \<and> py_first c = Inr x \<and> depth frames x = Inr (d - 1)"
  using assms by (cases c rule: nesting.cases) (auto simp: depth_eq split: if_splits)

lemma nesting_nest: "nesting (nest k x) = k + nesting x"
  by (induction k) simp_all

lemma stub_engine_simps [simp]:
  "shape stub_engine = stub_shape"
  "is_valid stub_engine g = (entry g ''valid'' \<noteq> Some (JBool False))"
  "buffer_zero stub_engine = stub_buffer"
  "truthy stub_engine g = (entry g ''coordinates'' \<noteq> Some (JList []))"
  "mapping stub_engine g = g"
  by (simp_all add: stub_engine_def)

lemmas sample_defs =
  feature_a_def feature_b_def feature_c_def feature_d_def feature_e_def feature_f_def
  feature_def polygon_def collection_def good_files_def bad_input_def ring_def collapsed_def

lemmas run_defs =
  repair_geojson_no_gpd_def repair_body_def process_feature_def fix_geojson_structure_def
  fix_polygon_validity_def stub_shape_def stub_buffer_def entry_def depth_eq Let_def

section \<open>The depth function\<close>

text \<open>
  Claim C5, as amended. The depth of the empty list is 0; the depth counts every list
  level down to the first non-list, so \<^verbatim>\<open>depth([[1,2]])\<close> is 2 and \<^verbatim>\<open>depth([[[1,2]]])\<close> is
  3 (a polygon's ring list has depth 3, as the normalizer expects). The three calls
  return these values whenever the recursion limit leaves them the one, three and four
  frames they use.
\<close>

theorem depth_examples_amended:
  "depth (frames + 1) (JList []) = Inr 0
   \<and> depth (frames + 3) (JList [JList [JInt 1, JInt 2]]) = Inr 2
   \<and> depth (frames + 4) (JList [JList [JList [JInt 1, JInt 2]]]) = Inr 3"
  by (simp add: depth_eq)

text \<open>
  Claim C5 as stated fails: the three equations \<^verbatim>\<open>depth([]) == 0\<close>,
  \<^verbatim>\<open>depth([[1,2]]) == 1\<close> and \<^verbatim>\<open>depth([[[1,2]]]) == 2\<close> do not hold together.
\<close>

theorem depth_examples_counterexample:
  "\<not> (depth 1000 (JList []) = Inr 0
      \<and> depth 1000 (JList [JList [JInt 1, JInt 2]]) = Inr 1
      \<and> depth 1000 (JList [JList [JList [JInt 1, JInt 2]]]) = Inr 2)"
  by (simp add: depth_eq)

section \<open>The normalizer on a dict with type and coordinates\<close>

lemma normalize_dict:
  assumes "map_of kvs ''type'' = Some gtype" and "map_of kvs ''coordinates'' = Some coords"
  shows "fix_geojson_structure frames (JObj kvs) =
     py_bind (depth frames coords) (\<lambda>d.
       if gtype = JStr ''Polygon'' then
         py_bind (if d = 2 then Inr (JList [coords])
                  else if d > 3 then py_first coords else Inr coords)
           (\<lambda>c. Inr (JObj (AList.update ''coordinates'' c kvs)))
       else if gtype = JStr ''MultiPolygon'' then
         py_bind (if d = 3 then Inr (JList [coords])
                  else if d > 4 then py_first coords else Inr coords)
           (\<lambda>c. Inr (JObj (AList.update ''coordinates'' c kvs)))
       else Inr (JObj kvs))"
proof -
  from assms(1) have "kvs \<noteq> []" by auto
  with assms show ?thesis
    by (cases "depth frames coords") (simp_all add: fix_geojson_structure_def py_setitem_dict)
qed

text \<open>
  Claim C2. For a geometry dict with \<open>type\<close> and \<open>coordinates\<close>, of type Polygon
  (target depth 3) or MultiPolygon (target depth 4), on whose coordinates \<^verbatim>\<open>depth\<close>
  measures \<open>d\<close>: at \<open>d\<close> one below the target the coordinates are replaced by the
  one-element list holding them, which has the target depth; at \<open>d\<close> above the target
  the coordinates are a non-empty list and are replaced by their first element, of depth
  \<open>d - 1\<close>; at the target depth the dict is returned as it is. The \<open>coordinates\<close> entry is
  updated in its place and no other entry changes.
\<close>

theorem normalizer_depth_policy:
  assumes "map_of kvs ''type'' = Some (JStr t)"
    and "map_of kvs ''coordinates'' = Some coords"
    and "(t = ''Polygon'' \<and> target = 3) \<or> (t = ''MultiPolygon'' \<and> target = 4)"
    and "depth frames coords = Inr d"
  shows "(d = target - 1 \<longrightarrow>
            fix_geojson_structure frames (JObj kvs)
              = Inr (JObj (AList.update ''coordinates'' (JList [coords]) kvs))
            \<and> depth (Suc frames) (JList [coords]) = Inr target)
       \<and> (d > target \<longrightarrow>
            (\<exists>x xs. coords = JList (x # xs)
               \<and> fix_geojson_structure frames (JObj kvs)
                   = Inr (JObj (AList.update ''coordinates'' x kvs))
               \<and> depth frames x = Inr (d - 1)))
       \<and> (d = target \<longrightarrow> fix_geojson_structure frames (JObj kvs) = Inr (JObj kvs))"
proof (intro conjI impI)
  assume d: "d = target - 1"
  with assms(3,4) show "fix_geojson_structure frames (JObj kvs)
      = Inr (JObj (AList.update ''coordinates'' (JList [coords]) kvs))"
    by (auto simp: normalize_dict[OF assms(1,2)])
  from d assms(3,4) show "depth (Suc frames) (JList [coords]) = Inr target" by auto
next
  assume d: "d > target"
  then have "0 < d" by simp
  from depth_pos_first[OF assms(4) this] obtain x xs where
    c: "coords = JList (x # xs)" "py_first coords = Inr x" "depth frames x = Inr (d - 1)"
    by blast
  from d assms(3,4) c(2)
  have "fix_geojson_structure frames (JObj kvs)
          = Inr (JObj (AList.update ''coordinates'' x kvs))"
    by (auto simp: normalize_dict[OF assms(1,2)])
  with c show "\<exists>x xs. coords = JList (x # xs)
               \<and> fix_geojson_structure frames (JObj kvs)
                   = Inr (JObj (AList.update ''coordinates'' x kvs))
               \<and> depth frames x = Inr (d - 1)"
    by auto
next
  assume d: "d = target"
  have "AList.update ''coordinates'' coords kvs = kvs"
    by (rule update_triv[OF assms(2)])
  with d assms(3,4) show "fix_geojson_structure frames (JObj kvs) = Inr (JObj kvs)"
    by (auto simp: normalize_dict[OF assms(1,2)])
qed

text \<open>
  The three cases of claim C2 on sample geometries: a bare ring given as polygon
  coordinates is wrapped, multipolygon coordinates one level too deep are unwrapped, and
  well-formed polygon coordinates are left alone.
\<close>

theorem normalizer_depth_policy_witness:
  "(map_of [(''type'', JStr ''Polygon''), (''coordinates'', ring)] ''type''
      = Some (JStr ''Polygon'')
    \<and> map_of [(''type'', JStr ''Polygon''), (''coordinates'', ring)] ''coordinates''
      = Some ring
    \<and> depth 1000 ring = Inr (3 - 1)
    \<and> fix_geojson_structure 1000 (polygon ring) = Inr (polygon (JList [ring]))
    \<and> depth (Suc 1000) (JList [ring]) = Inr 3)
   \<and> (depth 1000 (JList [JList [JList [ring]]]) = Inr 5
    \<and> fix_geojson_structure 1000 (multipolygon (JList [JList [JList [ring]]]))
         = Inr (multipolygon (JList [JList [ring]]))
    \<and> depth 1000 (JList [JList [ring]]) = Inr 4)
   \<and> (depth 1000 (JList [ring]) = Inr 3
    \<and> fix_geojson_structure 1000 (polygon (JList [ring])) = Inr (polygon (JList [ring])))"
  using normalizer_depth_policy
          [of "[(''type'', JStr ''Polygon''), (''coordinates'', ring)]" "''Polygon''" ring 3
              1000 2]
        normalizer_depth_policy
          [of "[(''type'', JStr ''MultiPolygon''),
                (''coordinates'', JList [JList [JList [ring]]])]"
              "''MultiPolygon''" "JList [JList [JList [ring]]]" 4 1000 5]
        normalizer_depth_policy
          [of "[(''type'', JStr ''Polygon''), (''coordinates'', JList [ring])]" "''Polygon''"
              "JList [ring]" 3 1000 3]
  by (simp add: ring_def polygon_def multipolygon_def depth_eq)

section \<open>The validity repairer\<close>

text \<open>
  Claim C3. A geometry the engine reports valid is returned as it is. For an invalid
  one the zero-distance buffer is applied and the buffered object is returned when it is
  valid. The result is \<^verbatim>\<open>None\<close> exactly when the input is invalid and the buffer raises a
  topological error or gives an object that is still invalid. A topological error never
  leaves the function.
\<close>

theorem fix_polygon_validity_cases:
  "(is_valid eng geom \<longrightarrow> fix_polygon_validity eng geom = Inr (Some geom))
   \<and> (\<not> is_valid eng geom \<longrightarrow>
        (\<forall>fixed. buffer_zero eng geom = Inr fixed \<and> is_valid eng fixed
                  \<longrightarrow> fix_polygon_validity eng geom = Inr (Some fixed)))
   \<and> (fix_polygon_validity eng geom = Inr None \<longleftrightarrow>
        \<not> is_valid eng geom
        \<and> (buffer_zero eng geom = Inl TopologicalError
           \<or> (\<exists>fixed. buffer_zero eng geom = Inr fixed \<and> \<not> is_valid eng fixed)))
   \<and> fix_polygon_validity eng geom \<noteq> Inl TopologicalError"
  by (auto simp: fix_polygon_validity_def split: sum.splits)

text \<open>
  Claim C3 on the stand-in engine: a valid polygon, a bowtie the buffer repairs, a
  geometry on which the buffer raises and one it leaves invalid.
\<close>

theorem fix_polygon_validity_cases_witness:
  "(is_valid stub_engine (polygon (JList [ring]))
     \<and> fix_polygon_validity stub_engine (polygon (JList [ring]))
         = Inr (Some (polygon (JList [ring]))))
   \<and> (\<not> is_valid stub_engine bowtie
     \<and> buffer_zero stub_engine bowtie
         = Inr (JObj [(''type'', JStr ''Polygon''), (''coordinates'', JList [ring]),
                      (''valid'', JBool True)])
     \<and> fix_polygon_validity stub_engine bowtie
         = Inr (Some (JObj [(''type'', JStr ''Polygon''), (''coordinates'', JList [ring]),
                            (''valid'', JBool True)])))
   \<and> (\<not> is_valid stub_engine collapsed
     \<and> buffer_zero stub_engine collapsed = Inl TopologicalError
     \<and> fix_polygon_validity stub_engine collapsed = Inr None)
   \<and> (\<not> is_valid stub_engine stubborn
     \<and> buffer_zero stub_engine stubborn = Inr stubborn
     \<and> fix_polygon_validity stub_engine stubborn = Inr None)"
  using fix_polygon_validity_cases [of stub_engine "polygon (JList [ring])"]
        fix_polygon_validity_cases [of stub_engine bowtie]
        fix_polygon_validity_cases [of stub_engine collapsed]
        fix_polygon_validity_cases [of stub_engine stubborn]
  by (simp add: polygon_def bowtie_def collapsed_def stubborn_def entry_def stub_buffer_def)

section \<open>The normalizer on other inputs\<close>

lemma normalize_no_type:
  "map_of kvs ''type'' = None \<Longrightarrow> fix_geojson_structure frames (JObj kvs) = Inr (JObj kvs)"
  by (simp add: fix_geojson_structure_def)

lemma normalize_no_coordinates:
  "map_of kvs ''coordinates'' = None
     \<Longrightarrow> fix_geojson_structure frames (JObj kvs) = Inr (JObj kvs)"
  by (simp add: fix_geojson_structure_def)

lemma normalize_other_type:
  assumes "map_of kvs ''type'' \<noteq> Some (JStr ''Polygon'')"
    and "map_of kvs ''type'' \<noteq> Some (JStr ''MultiPolygon'')"
    and "map_of kvs ''coordinates'' = Some coords" and "nesting coords < frames"
  shows "fix_geojson_structure frames (JObj kvs) = Inr (JObj kvs)"
proof (cases "map_of kvs ''type''")
  case None
  then show ?thesis by (rule normalize_no_type)
next
  case t: (Some gtype)
  from assms t show ?thesis
    by (simp add: normalize_dict[OF t assms(3)] depth_eq)
qed

lemma normalize_deep:
  assumes "map_of kvs ''type'' = Some gtype" and "map_of kvs ''coordinates'' = Some coords"
    and "frames \<le> nesting coords"
  shows "fix_geojson_structure frames (JObj kvs) = Inl RecursionError"
  using assms(3) by (simp add: normalize_dict[OF assms(1,2)] depth_eq)

lemma normalize_dict_returns:
  assumes "\<forall>c. map_of kvs ''coordinates'' = Some c \<longrightarrow> nesting c < frames"
  shows "\<exists>kvs'. fix_geojson_structure frames (JObj kvs) = Inr (JObj kvs')"
proof (cases "map_of kvs ''type''")
  case None
  then show ?thesis by (simp add: normalize_no_type)
next
  case t: (Some gtype)
  show ?thesis
  proof (cases "map_of kvs ''coordinates''")
    case None
    then show ?thesis by (simp add: normalize_no_coordinates)
  next
    case (Some coords)
    with assms have d: "depth frames coords = Inr (nesting coords)"
      by (simp add: depth_eq)
    have "\<exists>c. (if nesting coords = 2 then Inr (JList [coords])
            else if nesting coords > 3 then py_first coords else Inr coords) = Inr c"
      using depth_pos_first[OF d] by (cases "nesting coords > 3") auto
    then obtain c3 where
      c3: "(if nesting coords = 2 then Inr (JList [coords])
            else if nesting coords > 3 then py_first coords else Inr coords) = Inr c3"
      by blast
    have "\<exists>c. (if nesting coords = 3 then Inr (JList [coords])
            else if nesting coords > 4 then py_first coords else Inr coords) = Inr c"
      using depth_pos_first[OF d] by (cases "nesting coords > 4") auto
    then obtain c4 where
      c4: "(if nesting coords = 3 then Inr (JList [coords])
            else if nesting coords > 4 then py_first coords else Inr coords) = Inr c4"
      by blast
    show ?thesis
      by (simp add: normalize_dict[OF t Some] d c3 c4)
  qed
qed

lemma normalize_raises_iff:
  "fix_geojson_structure frames (JObj kvs) = Inl e \<longleftrightarrow>
     e = RecursionError
     \<and> (\<exists>t c. map_of kvs ''type'' = Some t \<and> map_of kvs ''coordinates'' = Some c
              \<and> frames \<le> nesting c)"
proof (cases "\<forall>c. map_of kvs ''coordinates'' = Some c \<longrightarrow> nesting c < frames")
  case True
  from normalize_dict_returns[OF this] True show ?thesis by auto
next
  case False
  then obtain c where c: "map_of kvs ''coordinates'' = Some c" "frames \<le> nesting c"
    by auto
  show ?thesis
  proof (cases "map_of kvs ''type''")
    case None
    then show ?thesis by (simp add: normalize_no_type)
  next
    case (Some t)
    from normalize_deep[OF Some c] Some c show ?thesis by auto
  qed
qed

text \<open>
  Claim C8, as amended. \<^verbatim>\<open>None\<close> and a dict without \<open>type\<close> or without \<open>coordinates\<close>
  are returned unchanged. A dict with \<open>coordinates\<close> whose \<open>type\<close> is neither Polygon nor
  MultiPolygon is returned unchanged when its coordinates nest fewer list levels than
  the recursion limit leaves frames for \<^verbatim>\<open>depth\<close>, which runs before the type is looked
  at. On every dict whose coordinates, if it has any, nest that little, the normalizer
  returns a dict. On a dict it raises only \<^verbatim>\<open>RecursionError\<close>, and exactly when the dict
  has both keys and its coordinates nest at least as many list levels as there are
  frames.
\<close>

theorem normalizer_unchanged_cases:
  "((g = JNull
      \<or> g = JObj kvs \<and> (map_of kvs ''type'' = None \<or> map_of kvs ''coordinates'' = None))
     \<longrightarrow> fix_geojson_structure frames g = Inr g)
   \<and> (map_of kvs ''type'' \<noteq> Some (JStr ''Polygon'')
       \<and> map_of kvs ''type'' \<noteq> Some (JStr ''MultiPolygon'')
       \<and> map_of kvs ''coordinates'' = Some coords \<and> nesting coords < frames
     \<longrightarrow> fix_geojson_structure frames (JObj kvs) = Inr (JObj kvs))
   \<and> ((\<forall>c. map_of kvs ''coordinates'' = Some c \<longrightarrow> nesting c < frames)
     \<longrightarrow> (\<exists>kvs'. fix_geojson_structure frames (JObj kvs) = Inr (JObj kvs')))
   \<and> (fix_geojson_structure frames (JObj kvs) = Inl e \<longleftrightarrow>
        e = RecursionError
        \<and> (\<exists>t c. map_of kvs ''type'' = Some t \<and> map_of kvs ''coordinates'' = Some c
                 \<and> frames \<le> nesting c))"
proof (intro conjI impI)
  assume "g = JNull
      \<or> g = JObj kvs \<and> (map_of kvs ''type'' = None \<or> map_of kvs ''coordinates'' = None)"
  then show "fix_geojson_structure frames g = Inr g"
    using normalize_no_type[of kvs frames] normalize_no_coordinates[of kvs frames]
    by (auto simp: fix_geojson_structure_def)
next
  assume "map_of kvs ''type'' \<noteq> Some (JStr ''Polygon'')
       \<and> map_of kvs ''type'' \<noteq> Some (JStr ''MultiPolygon'')
       \<and> map_of kvs ''coordinates'' = Some coords \<and> nesting coords < frames"
  then show "fix_geojson_structure frames (JObj kvs) = Inr (JObj kvs)"
    using normalize_other_type[of kvs coords frames] by blast
next
  assume "\<forall>c. map_of kvs ''coordinates'' = Some c \<longrightarrow> nesting c < frames"
  then show "\<exists>kvs'. fix_geojson_structure frames (JObj kvs) = Inr (JObj kvs')"
    by (rule normalize_dict_returns)
next
  show "fix_geojson_structure frames (JObj kvs) = Inl e \<longleftrightarrow>
        e = RecursionError
        \<and> (\<exists>t c. map_of kvs ''type'' = Some t \<and> map_of kvs ''coordinates'' = Some c
                 \<and> frames \<le> nesting c)"
    by (rule normalize_raises_iff)
qed

text \<open>
  Claim C8, as amended, on \<^verbatim>\<open>None\<close>, a point, dicts lacking one of the keys, and a point
  whose coordinates are nested 1000 lists deep.
\<close>

theorem normalizer_unchanged_cases_witness:
  "fix_geojson_structure 1000 JNull = Inr JNull
   \<and> (map_of [(''type'', JStr ''Point''), (''coordinates'', ring)] ''type''
        \<noteq> Some (JStr ''Polygon'')
      \<and> map_of [(''type'', JStr ''Point''), (''coordinates'', ring)] ''type''
        \<noteq> Some (JStr ''MultiPolygon'')
      \<and> nesting ring < 1000
      \<and> fix_geojson_structure 1000 (JObj [(''type'', JStr ''Point''), (''coordinates'', ring)])
        = Inr (JObj [(''type'', JStr ''Point''), (''coordinates'', ring)]))
   \<and> (map_of [(''coordinates'', ring)] ''type'' = None
      \<and> fix_geojson_structure 1000 (JObj [(''coordinates'', ring)])
        = Inr (JObj [(''coordinates'', ring)]))
   \<and> (map_of [(''type'', JStr ''Polygon'')] ''coordinates'' = None
      \<and> fix_geojson_structure 1000 (JObj [(''type'', JStr ''Polygon'')])
        = Inr (JObj [(''type'', JStr ''Polygon'')]))
   \<and> (1000 \<le> nesting (nest 1000 (JInt 0))
      \<and> fix_geojson_structure 1000
           (JObj [(''type'', JStr ''Point''), (''coordinates'', nest 1000 (JInt 0))])
        = Inl RecursionError)"
  using normalizer_unchanged_cases [of JNull "[]" 1000]
        normalizer_unchanged_cases
          [of "JObj [(''type'', JStr ''Point''), (''coordinates'', ring)]"
              "[(''type'', JStr ''Point''), (''coordinates'', ring)]" 1000 ring]
        normalizer_unchanged_cases
          [of "JObj [(''coordinates'', ring)]" "[(''coordinates'', ring)]" 1000]
        normalizer_unchanged_cases
          [of "JObj [(''type'', JStr ''Polygon'')]" "[(''type'', JStr ''Polygon'')]" 1000]
        normalizer_unchanged_cases
          [of JNull "[(''type'', JStr ''Point''), (''coordinates'', nest 1000 (JInt 0))]"
              1000 JNull RecursionError]
  by (simp add: ring_def nesting_nest)

text \<open>
  Claim C8 as stated fails: on \<^verbatim>\<open>None\<close> the normalizer returns \<^verbatim>\<open>None\<close>, which is not a
  dict; on the number 5 (a truthy value that is no container) the membership test
  raises \<^verbatim>\<open>TypeError\<close>; and a point whose coordinates are nested 1000 lists deep is not
  returned unchanged, since \<^verbatim>\<open>depth\<close> raises \<^verbatim>\<open>RecursionError\<close> on them under the default
  recursion limit.
\<close>

theorem normalizer_unchanged_counterexample:
  "fix_geojson_structure 1000 JNull = Inr JNull \<and> \<not> is_dict JNull
   \<and> fix_geojson_structure 1000 (JInt 5) = Inl TypeError
   \<and> fix_geojson_structure 1000
        (JObj [(''type'', JStr ''Point''), (''coordinates'', nest 1000 (JInt 0))])
      = Inl RecursionError"
  by (simp add: fix_geojson_structure_def depth_eq nesting_nest)

text \<open>
  Claim C10 as stated fails: the normalizer is not total on every JSON value. The
  membership test raises on \<^verbatim>\<open>true\<close>; on a list that holds both key names, and on a
  string that contains both, the guard passes and indexing by a string raises; on a
  polygon whose coordinates are nested 1000 lists deep \<^verbatim>\<open>depth\<close> raises \<^verbatim>\<open>RecursionError\<close>
  under the default recursion limit.
\<close>

theorem normalizer_total_counterexample:
  "fix_geojson_structure 1000 (JBool True) = Inl TypeError
   \<and> fix_geojson_structure 1000 (JList [JStr ''type'', JStr ''coordinates'']) = Inl TypeError
   \<and> fix_geojson_structure 1000 (JStr ''type, coordinates'') = Inl TypeError
   \<and> fix_geojson_structure 1000 (polygon (nest 1000 (JInt 0))) = Inl RecursionError"
  by (simp add: fix_geojson_structure_def sublist_Cons_right polygon_def depth_eq nesting_nest)

text \<open>
  Claim C10, as amended. Whenever the unwrap branch is taken (Polygon measured deeper
  than 3, MultiPolygon deeper than 4) the coordinates are a non-empty list, taking their
  first element succeeds, and the normalizer returns the dict with that element as
  coordinates. The normalizer returns a value, without raising, on \<^verbatim>\<open>None\<close> and on every
  dict whose coordinates, if it has any, nest fewer list levels than the recursion limit
  leaves frames for \<^verbatim>\<open>depth\<close>, whatever JSON the dict holds. On a dict with both keys
  whose coordinates nest deeper it raises \<^verbatim>\<open>RecursionError\<close>.
\<close>

theorem unwrap_in_bounds:
  "(map_of kvs ''coordinates'' = Some coords \<and> depth frames coords = Inr d
      \<and> (map_of kvs ''type'' = Some (JStr ''Polygon'') \<and> 3 < d
         \<or> map_of kvs ''type'' = Some (JStr ''MultiPolygon'') \<and> 4 < d)
     \<longrightarrow> (\<exists>x xs. coords = JList (x # xs) \<and> py_first coords = Inr x
            \<and> fix_geojson_structure frames (JObj kvs)
                = Inr (JObj (AList.update ''coordinates'' x kvs))))
   \<and> (g = JNull
       \<or> g = JObj kvs' \<and> (\<forall>c. map_of kvs' ''coordinates'' = Some c \<longrightarrow> nesting c < frames)
     \<longrightarrow> (\<exists>r. fix_geojson_structure frames g = Inr r))
   \<and> (map_of kvs ''type'' = Some t \<and> map_of kvs ''coordinates'' = Some coords
       \<and> frames \<le> nesting coords
     \<longrightarrow> fix_geojson_structure frames (JObj kvs) = Inl RecursionError)"
proof (intro conjI impI)
  assume a: "map_of kvs ''coordinates'' = Some coords \<and> depth frames coords = Inr d
      \<and> (map_of kvs ''type'' = Some (JStr ''Polygon'') \<and> 3 < d
         \<or> map_of kvs ''type'' = Some (JStr ''MultiPolygon'') \<and> 4 < d)"
  then have d: "depth frames coords = Inr d" and "0 < d" by auto
  from depth_pos_first[OF this] obtain x xs where
    c: "coords = JList (x # xs)" "py_first coords = Inr x"
    by blast
  from a have co: "map_of kvs ''coordinates'' = Some coords" by simp
  from a consider "map_of kvs ''type'' = Some (JStr ''Polygon'')" "3 < d"
    | "map_of kvs ''type'' = Some (JStr ''MultiPolygon'')" "4 < d"
    by blast
  then have "fix_geojson_structure frames (JObj kvs)
               = Inr (JObj (AList.update ''coordinates'' x kvs))"
  proof cases
    case 1
    then show ?thesis using c(2) d by (simp add: normalize_dict[OF 1(1) co])
  next
    case 2
    then show ?thesis using c(2) d by (simp add: normalize_dict[OF 2(1) co])
  qed
  with c show "\<exists>x xs. coords = JList (x # xs) \<and> py_first coords = Inr x
            \<and> fix_geojson_structure frames (JObj kvs)
                = Inr (JObj (AList.update ''coordinates'' x kvs))"
    by blast
next
  assume "g = JNull
       \<or> g = JObj kvs' \<and> (\<forall>c. map_of kvs' ''coordinates'' = Some c \<longrightarrow> nesting c < frames)"
  then show "\<exists>r. fix_geojson_structure frames g = Inr r"
  proof
    assume "g = JNull"
    then show ?thesis by (simp add: fix_geojson_structure_def)
  next
    assume "g = JObj kvs' \<and> (\<forall>c. map_of kvs' ''coordinates'' = Some c \<longrightarrow> nesting c < frames)"
    with normalize_dict_returns[of kvs' frames] show ?thesis by auto
  qed
next
  assume "map_of kvs ''type'' = Some t \<and> map_of kvs ''coordinates'' = Some coords
       \<and> frames \<le> nesting coords"
  then show "fix_geojson_structure frames (JObj kvs) = Inl RecursionError"
    using normalize_deep[of kvs t coords frames] by blast
qed

text \<open>
  Claim C10, as amended, on multipolygon coordinates one level too deep, on \<^verbatim>\<open>None\<close>,
  on a dict whose coordinates are a string, and on a polygon whose coordinates are
  nested 1000 lists deep.
\<close>

theorem unwrap_in_bounds_witness:
  "(map_of [(''type'', JStr ''MultiPolygon''), (''coordinates'', JList [JList [JList [ring]]])]
       ''coordinates'' = Some (JList [JList [JList [ring]]])
     \<and> depth 1000 (JList [JList [JList [ring]]]) = Inr 5
     \<and> py_first (JList [JList [JList [ring]]]) = Inr (JList [JList [ring]])
     \<and> fix_geojson_structure 1000 (multipolygon (JList [JList [JList [ring]]]))
         = Inr (multipolygon (JList [JList [ring]])))
   \<and> (\<exists>r. fix_geojson_structure 1000 JNull = Inr r)
   \<and> (nesting (JStr ''not-a-list'') < 1000
     \<and> (\<exists>r. fix_geojson_structure 1000 (polygon (JStr ''not-a-list'')) = Inr r))
   \<and> (1000 \<le> nesting (nest 1000 (JInt 0))
     \<and> fix_geojson_structure 1000 (polygon (nest 1000 (JInt 0))) = Inl RecursionError)"
  using unwrap_in_bounds
          [of "[(''type'', JStr ''MultiPolygon''),
                (''coordinates'', JList [JList [JList [ring]]])]"
              "JList [JList [JList [ring]]]" 1000 5 JNull "[]"]
        unwrap_in_bounds
          [of "[]" JNull 1000 0 "polygon (JStr ''not-a-list'')"
              "[(''type'', JStr ''Polygon''), (''coordinates'', JStr ''not-a-list'')]"]
        unwrap_in_bounds
          [of "[(''type'', JStr ''Polygon''), (''coordinates'', nest 1000 (JInt 0))]"
              "nest 1000 (JInt 0)" 1000 0 JNull "[]" "JStr ''Polygon''"]
  by (simp add: ring_def multipolygon_def polygon_def depth_eq nesting_nest)

section \<open>The feature loop\<close>

text \<open>
  The normalizer receives whatever truthy value a feature has as \<open>geometry\<close>. When that
  value is a number, the \<^verbatim>\<open>TypeError\<close> of the membership test is not caught inside the
  loop and ends the run in the error box. So does the \<^verbatim>\<open>RecursionError\<close> of \<^verbatim>\<open>depth\<close> on
  coordinates nested 1000 lists deep.
\<close>

lemma number_geometry_aborts_run:
  "repair_geojson_no_gpd stub_engine 1000 (good_files (collection [feature ''n'' (JInt 5)]))
     = [Progress 10, Progress 30, ShowError TypeError]"
  by (simp add: sample_defs run_defs)

lemma deep_geometry_aborts_run:
  "repair_geojson_no_gpd stub_engine 1000
     (good_files (collection [feature ''n'' (polygon (nest 1000 (JInt 0)))]))
     = [Progress 10, Progress 30, ShowError RecursionError]"
  by (simp add: sample_defs run_defs nesting_nest)

lemma loop_events_progress:
  "set (fst (feature_loop eng frames n feats fixed d)) \<subseteq> range Progress"
proof (induction feats arbitrary: fixed d)
  case Nil
  show ?case by simp
next
  case (Cons feat rest)
  show ?case
  proof (cases "process_feature eng frames feat")
    case (Inl e)
    then show ?thesis by simp
  next
    case (Inr ex)
    show ?thesis
    proof (cases ex)
      case Continue
      with Inr Cons.IH show ?thesis by simp
    next
      case (FallThrough kept)
      with Inr Cons.IH show ?thesis by (auto simp: Let_def)
    qed
  qed
qed

lemma loop_no_outcome [simp]:
  "filter is_outcome (fst (feature_loop eng frames n feats fixed d)) = []"
  using loop_events_progress[of eng frames n feats fixed d] by (auto simp: filter_empty_conv)

lemma loop_no_output [simp]:
  "filter is_output (fst (feature_loop eng frames n feats fixed d)) = []"
  using loop_events_progress[of eng frames n feats fixed d] by (auto simp: filter_empty_conv)

text \<open>The pass of the loop body in terms of the fate of the feature.\<close>

lemma process_feature_fate:
  "process_feature eng frames feat =
     (case fate eng frames feat of
        Aborts e \<Rightarrow> Inl e
      | ParseFailure \<Rightarrow> Inr Continue
      | Survives g \<Rightarrow> Inr (FallThrough (survivor eng frames feat))
      | _ \<Rightarrow> Inr (FallThrough None))"
  by (cases feat)
     (auto simp: process_feature_def fate_def survivor_def
           split: option.splits sum.splits)

lemma survivor_Some_fate:
  "survivor eng frames feat = Some f \<Longrightarrow> \<exists>g. fate eng frames feat = Survives g"
  by (auto simp: survivor_def split: fate.splits)

lemma fate_Survives_survivor:
  "fate eng frames feat = Survives g \<Longrightarrow> \<exists>f. survivor eng frames feat = Some f"
  by (cases feat) (auto simp: survivor_def fate_def)

lemma kept_feature_survivor: "kept_feature eng frames feat = survivor eng frames feat"
proof (cases "fate eng frames feat")
  case (Survives g)
  from fate_Survives_survivor[OF this] Survives show ?thesis
    by (auto simp: kept_feature_def process_feature_fate)
next
  case NoGeometry
  then show ?thesis by (simp add: kept_feature_def process_feature_fate survivor_def)
next
  case ParseFailure
  then show ?thesis by (simp add: kept_feature_def process_feature_fate survivor_def)
next
  case Unrepairable
  then show ?thesis by (simp add: kept_feature_def process_feature_fate survivor_def)
next
  case EmptyResult
  then show ?thesis by (simp add: kept_feature_def process_feature_fate survivor_def)
next
  case (Aborts e)
  then show ?thesis by (simp add: kept_feature_def process_feature_fate survivor_def)
qed

lemma loop_survivors:
  "snd (feature_loop eng frames n feats fixed d) = Inr out
     \<Longrightarrow> out = fixed @ List.map_filter (survivor eng frames) feats
         \<and> (\<forall>feat \<in> set feats. \<forall>e. fate eng frames feat \<noteq> Aborts e)"
proof (induction feats arbitrary: fixed d)
  case Nil
  then show ?case by simp
next
  case (Cons feat rest)
  show ?case
  proof (cases "process_feature eng frames feat")
    case (Inl e)
    with Cons.prems show ?thesis by simp
  next
    case (Inr ex)
    then have na: "\<forall>e. fate eng frames feat \<noteq> Aborts e"
      by (auto simp: process_feature_fate)
    have ks: "kept_feature eng frames feat = survivor eng frames feat"
      by (rule kept_feature_survivor)
    show ?thesis
    proof (cases ex)
      case Continue
      with Inr Cons.prems
      have "snd (feature_loop eng frames n rest fixed d) = Inr out" by simp
      note ih = Cons.IH[OF this]
      from Continue Inr ks have sv: "survivor eng frames feat = None"
        by (simp add: kept_feature_def)
      from ih na sv show ?thesis
        by simp
    next
      case (FallThrough kept)
      with Inr Cons.prems
      have "snd (feature_loop eng frames n rest
                   (case kept of None \<Rightarrow> fixed | Some f \<Rightarrow> fixed @ [f]) (d + 1)) = Inr out"
        by (simp add: Let_def)
      note ih = Cons.IH[OF this]
      from FallThrough Inr ks have sv: "survivor eng frames feat = kept"
        by (cases kept) (simp_all add: kept_feature_def)
      from ih na sv show ?thesis
        by (cases kept) simp_all
    qed
  qed
qed

lemma process_feature_no_geometry:
  assumes "map_of kvs ''geometry'' = None \<or> map_of kvs ''geometry'' = Some JNull"
  shows "process_feature eng frames (JObj kvs) = Inr (FallThrough None)"
  using assms by (auto simp: process_feature_def)

text \<open>
  Claim C1, as amended. For a feature whose \<open>geometry\<close> is absent or null the loop body
  skips the geometry logic and appends nothing: the feature is not a survivor, the
  survivor list goes on to the next feature as it was, and the feature counts toward the
  progress value set after it.
\<close>

theorem null_geometry_not_appended:
  assumes "map_of kvs ''geometry'' = None \<or> map_of kvs ''geometry'' = Some JNull"
  shows "process_feature eng frames (JObj kvs) = Inr (FallThrough None)
       \<and> kept_feature eng frames (JObj kvs) = None
       \<and> feature_loop eng frames n (JObj kvs # rest) fixed_features ndone
          = (Progress (30 + (60 * int (ndone + 1)) div int (max 1 n))
               # fst (feature_loop eng frames n rest fixed_features (ndone + 1)),
             snd (feature_loop eng frames n rest fixed_features (ndone + 1)))"
  using process_feature_no_geometry[OF assms, of eng frames]
  by (simp add: kept_feature_def Let_def)

text \<open>
  Claim C1, as amended, on the sample feature with a null geometry, followed by a valid
  one.
\<close>

theorem null_geometry_not_appended_witness:
  "map_of [(''type'', JStr ''Feature''), (''properties'', JObj [(''name'', JStr ''d'')]),
           (''geometry'', JNull)] ''geometry'' = Some JNull
   \<and> kept_feature stub_engine 1000 feature_d = None
   \<and> feature_loop stub_engine 1000 2 [feature_d, feature_a] [] 0
        = ([Progress 60, Progress 90], Inr [feature_a])"
  using null_geometry_not_appended
     [of "[(''type'', JStr ''Feature''), (''properties'', JObj [(''name'', JStr ''d'')]),
           (''geometry'', JNull)]" stub_engine 1000 2 "[feature_a]" "[]" 0]
  by (simp add: sample_defs run_defs)

text \<open>
  Claim C1 as stated fails: of a valid feature and a feature with a null geometry, a
  successful run writes the valid one only.
\<close>

theorem null_geometry_counterexample:
  "repair_geojson_no_gpd stub_engine 1000 (good_files (collection [feature_a, feature_d]))
     = [Progress 10, Progress 30, Progress 60, Progress 90, OpenOutput,
        JsonDump (collection [feature_a]) False 2, Progress 100, ShowInfo]"
  by (simp add: sample_defs run_defs)

section \<open>The whole run\<close>

lemma py_len_iter:
  "py_len v = Inr n \<Longrightarrow> \<exists>feats. py_iter v = Inr feats \<and> length feats = n"
  by (cases v) auto

lemma py_get_dict:
  "py_get data k dflt = Inr v \<Longrightarrow>
     \<exists>kvs. data = JObj kvs \<and> v = (case map_of kvs k of None \<Rightarrow> dflt | Some v \<Rightarrow> v)"
  by (cases data) auto

lemma loop_no_ShowInfo: "ShowInfo \<notin> set (fst (feature_loop eng frames n feats fixed d))"
  using loop_events_progress[of eng frames n feats fixed d] by auto

lemma run_succeededD:
  assumes "succeeded (repair_geojson_no_gpd eng frames fs)"
  shows "\<exists>kvs fv feats evs fixed.
           load_input fs = Inr (JObj kvs)
         \<and> fv = (case map_of kvs ''features'' of None \<Rightarrow> JList [] | Some v \<Rightarrow> v)
         \<and> py_iter fv = Inr feats
         \<and> py_len fv = Inr (length feats)
         \<and> feature_loop eng frames (length feats) feats [] 0 = (evs, Inr fixed)
         \<and> open_output fs = None
         \<and> dump_raises fs (JObj (AList.update ''features'' (JList fixed) kvs)) = None
         \<and> repair_geojson_no_gpd eng frames fs =
             [Progress 10, Progress 30] @ evs
              @ [OpenOutput,
                 JsonDump (JObj (AList.update ''features'' (JList fixed) kvs)) False 2,
                 Progress 100, ShowInfo]"
proof (cases "load_input fs")
  case (Inl e)
  with assms show ?thesis
    by (simp add: succeeded_def repair_geojson_no_gpd_def repair_body_def)
next
  case data: (Inr data)
  show ?thesis
  proof (cases "py_get data ''features'' (JList [])")
    case (Inl e)
    with assms data show ?thesis
      by (simp add: succeeded_def repair_geojson_no_gpd_def repair_body_def)
  next
    case (Inr fv)
    from py_get_dict[OF this] obtain kvs where
      kvs: "data = JObj kvs"
        "fv = (case map_of kvs ''features'' of None \<Rightarrow> JList [] | Some v \<Rightarrow> v)"
      by blast
    show ?thesis
    proof (cases "py_len fv")
      case (Inl e)
      with assms data Inr show ?thesis
        by (simp add: succeeded_def repair_geojson_no_gpd_def repair_body_def)
    next
      case len: (Inr n)
      from py_len_iter[OF this] obtain feats where
        feats: "py_iter fv = Inr feats" "length feats = n"
        by blast
      obtain evs r where loop: "feature_loop eng frames n feats [] 0 = (evs, r)"
        by (cases "feature_loop eng frames n feats [] 0")
      have noinfo: "ShowInfo \<notin> set evs"
        using loop_no_ShowInfo[of eng frames n feats "[]" 0] loop by simp
      show ?thesis
      proof (cases r)
        case (Inl e)
        with assms data Inr len feats loop noinfo show ?thesis
          by (simp add: succeeded_def repair_geojson_no_gpd_def repair_body_def)
      next
        case fixed: (Inr fixed)
        show ?thesis
        proof (cases "open_output fs")
          case (Some e)
          with assms data Inr len feats loop noinfo fixed kvs show ?thesis
            by (simp add: succeeded_def repair_geojson_no_gpd_def repair_body_def)
        next
          case None
          show ?thesis
          proof (cases "dump_raises fs (JObj (AList.update ''features'' (JList fixed) kvs))")
            case (Some e)
            with assms data Inr len feats loop noinfo fixed kvs None show ?thesis
              by (simp add: succeeded_def repair_geojson_no_gpd_def repair_body_def)
          next
            case dump: None
            with data Inr len feats loop fixed kvs None show ?thesis
              by (simp add: repair_geojson_no_gpd_def repair_body_def)
          qed
        qed
      qed
    qed
  qed
qed

lemma body_no_outcome:
  "filter is_outcome (fst (repair_body eng frames fs))
     = (if snd (repair_body eng frames fs) = None then [ShowInfo] else [])"
  by (simp add: repair_body_def split_beta split: sum.splits option.splits)

text \<open>
  Claim C7. When loading the input raises \<open>e\<close>, the run sets the progress to 10, shows
  the error box with the message of \<open>e\<close> and does nothing else: the output file is
  neither opened nor written. Every run ends with exactly one call of a message box, the
  success box or the error box.
\<close>

theorem load_failure_single_outcome:
  "(load_input fs = Inl e \<longrightarrow>
      repair_geojson_no_gpd eng frames fs = [Progress 10, ShowError e]
      \<and> filter is_output (repair_geojson_no_gpd eng frames fs) = [])
   \<and> length (filter is_outcome (repair_geojson_no_gpd eng frames fs)) = 1"
proof (intro conjI impI)
  assume "load_input fs = Inl e"
  then show "repair_geojson_no_gpd eng frames fs = [Progress 10, ShowError e]"
    by (simp add: repair_geojson_no_gpd_def repair_body_def)
  then show "filter is_output (repair_geojson_no_gpd eng frames fs) = []"
    by simp
next
  show "length (filter is_outcome (repair_geojson_no_gpd eng frames fs)) = 1"
    using body_no_outcome[of eng frames fs]
    by (cases "repair_body eng frames fs")
       (auto simp: repair_geojson_no_gpd_def split: option.splits)
qed

text \<open>Claim C7 on an input file that does not exist.\<close>

theorem load_failure_single_outcome_witness:
  "load_input (bad_input (OtherException ''No such file or directory''))
      = Inl (OtherException ''No such file or directory'')
   \<and> repair_geojson_no_gpd stub_engine 1000
        (bad_input (OtherException ''No such file or directory''))
      = [Progress 10, ShowError (OtherException ''No such file or directory'')]
   \<and> length (filter is_outcome
        (repair_geojson_no_gpd stub_engine 1000
           (bad_input (OtherException ''No such file or directory'')))) = 1"
  using load_failure_single_outcome
    [of "bad_input (OtherException ''No such file or directory'')"
        "OtherException ''No such file or directory''" stub_engine 1000]
  by (simp add: bad_input_def)

lemma update_other_entries:
  "filter (\<lambda>p. fst p \<noteq> k) (AList.update k v al) = filter (\<lambda>p. fst p \<noteq> k) al"
  by (induction al) auto

text \<open>
  Claim C9. On a successful run the input document is a dict, and the output file is
  opened once and written once: \<^verbatim>\<open>json.dump\<close> receives the input document with its
  \<open>features\<close> entry set to the survivor list, with \<^verbatim>\<open>ensure_ascii=False\<close> (characters
  outside ASCII are written as they are) and \<^verbatim>\<open>indent=2\<close> (a fixed indentation). The
  entries of every other top-level key are the same, in the same order.
\<close>

theorem output_document_frame:
  assumes "succeeded (repair_geojson_no_gpd eng frames fs)"
  shows "\<exists>kvs fixed_features.
           load_input fs = Inr (JObj kvs)
         \<and> filter is_output (repair_geojson_no_gpd eng frames fs)
             = [OpenOutput,
                JsonDump (JObj (AList.update ''features'' (JList fixed_features) kvs)) False 2]
         \<and> filter (\<lambda>p. fst p \<noteq> ''features'')
              (AList.update ''features'' (JList fixed_features) kvs)
             = filter (\<lambda>p. fst p \<noteq> ''features'') kvs
         \<and> (\<forall>k. k \<noteq> ''features'' \<longrightarrow>
               map_of (AList.update ''features'' (JList fixed_features) kvs) k = map_of kvs k)
         \<and> map_of (AList.update ''features'' (JList fixed_features) kvs) ''features''
             = Some (JList fixed_features)"
proof -
  from run_succeededD[OF assms] obtain kvs feats evs fixed where
    r: "load_input fs = Inr (JObj kvs)"
       "feature_loop eng frames (length feats) feats [] 0 = (evs, Inr fixed)"
       "repair_geojson_no_gpd eng frames fs =
             [Progress 10, Progress 30] @ evs
              @ [OpenOutput,
                 JsonDump (JObj (AList.update ''features'' (JList fixed) kvs)) False 2,
                 Progress 100, ShowInfo]"
    by blast
  have "filter is_output evs = []"
    using loop_no_output[of eng frames "length feats" feats "[]" 0] r(2) by simp
  with r(3) have "filter is_output (repair_geojson_no_gpd eng frames fs)
             = [OpenOutput,
                JsonDump (JObj (AList.update ''features'' (JList fixed) kvs)) False 2]"
    by simp
  with r(1) show ?thesis
    by (auto simp: update_other_entries update_conv')
qed

text \<open>Claim C9 on the sample collection, which has a top-level \<open>name\<close>.\<close>

theorem output_document_frame_witness:
  "succeeded (repair_geojson_no_gpd stub_engine 1000
               (good_files (collection [feature_a, feature_b, feature_c])))
   \<and> filter is_output (repair_geojson_no_gpd stub_engine 1000
               (good_files (collection [feature_a, feature_b, feature_c])))
      = [OpenOutput,
         JsonDump (JObj [(''type'', JStr ''FeatureCollection''), (''name'', JStr ''sample''),
                         (''features'',
                          JList [feature_a, feature ''b'' (polygon (JList [ring]))])])
           False 2]"
  using output_document_frame
    [of stub_engine 1000 "good_files (collection [feature_a, feature_b, feature_c])"]
  by (simp add: sample_defs run_defs succeeded_def)

section \<open>Survivors\<close>

text \<open>The fates of a feature in terms of the normalizer, the engine and the repairer.\<close>

lemma fate_NoGeometry_iff:
  "fate eng frames feat = NoGeometry \<longleftrightarrow>
     (\<exists>fkvs. feat = JObj fkvs
        \<and> (map_of fkvs ''geometry'' = None
           \<or> (\<exists>gd. map_of fkvs ''geometry'' = Some gd \<and> \<not> py_truthy gd)))"
  by (cases feat) (auto simp: fate_def split: option.splits sum.splits)

lemma fate_ParseFailure_iff:
  "fate eng frames feat = ParseFailure \<longleftrightarrow>
     (\<exists>fkvs gd gd' e. feat = JObj fkvs \<and> map_of fkvs ''geometry'' = Some gd \<and> py_truthy gd
        \<and> fix_geojson_structure frames gd = Inr gd' \<and> shape eng gd' = Inl e)"
  by (cases feat) (auto simp: fate_def split: option.splits sum.splits)

lemma fate_Unrepairable_iff:
  "fate eng frames feat = Unrepairable \<longleftrightarrow>
     (\<exists>fkvs gd gd' geom. feat = JObj fkvs \<and> map_of fkvs ''geometry'' = Some gd
        \<and> py_truthy gd \<and> fix_geojson_structure frames gd = Inr gd'
        \<and> shape eng gd' = Inr geom \<and> fix_polygon_validity eng geom = Inr None)"
  by (cases feat) (auto simp: fate_def split: option.splits sum.splits)

lemma fate_EmptyResult_iff:
  "fate eng frames feat = EmptyResult \<longleftrightarrow>
     (\<exists>fkvs gd gd' geom g. feat = JObj fkvs \<and> map_of fkvs ''geometry'' = Some gd
        \<and> py_truthy gd \<and> fix_geojson_structure frames gd = Inr gd'
        \<and> shape eng gd' = Inr geom \<and> fix_polygon_validity eng geom = Inr (Some g)
        \<and> \<not> truthy eng g)"
  by (cases feat) (auto simp: fate_def split: option.splits sum.splits)

lemma survivor_iff:
  "survivor eng frames feat = Some f \<longleftrightarrow>
     (\<exists>fkvs gd gd' geom g. feat = JObj fkvs \<and> map_of fkvs ''geometry'' = Some gd
        \<and> py_truthy gd \<and> fix_geojson_structure frames gd = Inr gd'
        \<and> shape eng gd' = Inr geom \<and> fix_polygon_validity eng geom = Inr (Some g)
        \<and> truthy eng g
        \<and> f = JObj (AList.update ''geometry'' (mapping eng g) fkvs))"
  by (cases feat) (auto simp: survivor_def fate_def split: option.splits sum.splits)

lemma survivor_None_dropped:
  assumes "\<forall>e. fate eng frames feat \<noteq> Aborts e"
  shows "survivor eng frames feat = None \<longleftrightarrow> dropped eng frames feat"
proof (cases "fate eng frames feat")
  case (Survives g)
  from fate_Survives_survivor[OF this] Survives show ?thesis
    by (auto simp: dropped_def)
next
  case (Aborts e)
  with assms show ?thesis by simp
qed (simp_all add: survivor_def dropped_def)

lemma length_map_filter:
  "length (List.map_filter f xs) = length xs - length (filter (\<lambda>x. f x = None) xs)"
proof -
  have "length (filter (\<lambda>x. f x \<noteq> None) xs) + length (filter (\<lambda>x. \<not> f x \<noteq> None) xs)
          = length xs"
    by (rule sum_length_filter_compl)
  then show ?thesis by (simp add: List.map_filter_def)
qed

lemma survivors_count:
  assumes "\<forall>feat \<in> set feats. \<forall>e. fate eng frames feat \<noteq> Aborts e"
  shows "length (List.map_filter (survivor eng frames) feats)
           = length feats - length (filter (dropped eng frames) feats)"
proof -
  have "filter (\<lambda>feat. survivor eng frames feat = None) feats
          = filter (dropped eng frames) feats"
    using assms by (intro filter_cong refl) (simp add: survivor_None_dropped)
  with length_map_filter[of "survivor eng frames" feats] show ?thesis by simp
qed

text \<open>
  Claim C4, as amended. On a successful run the \<open>features\<close> of the written document are
  the survivors of the input features, in their original order. A feature survives
  exactly when its geometry is truthy, the normalized geometry parses, the repairer
  returns an object and that object is truthy; it is written with its \<open>geometry\<close> set to
  the export of that repaired object and its other entries as they were. Every other
  input feature is dropped, in one of four ways: its geometry is absent, null or
  otherwise falsy; its normalized geometry fails to parse; the repairer answers \<^verbatim>\<open>None\<close>;
  or the repaired object is falsy. The number of features written is the number of
  input features minus the number of features dropped in these four ways.
\<close>

theorem survivors_in_order:
  assumes "succeeded (repair_geojson_no_gpd eng frames fs)"
  shows "\<exists>kvs feats.
           load_input fs = Inr (JObj kvs)
         \<and> py_iter (case map_of kvs ''features'' of None \<Rightarrow> JList [] | Some v \<Rightarrow> v)
             = Inr feats
         \<and> filter is_output (repair_geojson_no_gpd eng frames fs)
             = [OpenOutput,
                JsonDump (JObj (AList.update ''features''
                                  (JList (List.map_filter (survivor eng frames) feats)) kvs))
                  False 2]
         \<and> (\<forall>feat \<in> set feats.
               (\<exists>f. survivor eng frames feat = Some f) \<or> dropped eng frames feat)
         \<and> length (List.map_filter (survivor eng frames) feats)
             = length feats - length (filter (dropped eng frames) feats)
         \<and> (\<forall>feat f. survivor eng frames feat = Some f \<longleftrightarrow>
               (\<exists>fkvs gd gd' geom g. feat = JObj fkvs \<and> map_of fkvs ''geometry'' = Some gd
                  \<and> py_truthy gd \<and> fix_geojson_structure frames gd = Inr gd'
                  \<and> shape eng gd' = Inr geom
                  \<and> fix_polygon_validity eng geom = Inr (Some g) \<and> truthy eng g
                  \<and> f = JObj (AList.update ''geometry'' (mapping eng g) fkvs)))
         \<and> (\<forall>feat. fate eng frames feat = NoGeometry \<longleftrightarrow>
               (\<exists>fkvs. feat = JObj fkvs
                  \<and> (map_of fkvs ''geometry'' = None
                     \<or> (\<exists>gd. map_of fkvs ''geometry'' = Some gd \<and> \<not> py_truthy gd))))
         \<and> (\<forall>feat. fate eng frames feat = ParseFailure \<longleftrightarrow>
               (\<exists>fkvs gd gd' e. feat = JObj fkvs \<and> map_of fkvs ''geometry'' = Some gd
                  \<and> py_truthy gd \<and> fix_geojson_structure frames gd = Inr gd'
                  \<and> shape eng gd' = Inl e))
         \<and> (\<forall>feat. fate eng frames feat = Unrepairable \<longleftrightarrow>
               (\<exists>fkvs gd gd' geom. feat = JObj fkvs \<and> map_of fkvs ''geometry'' = Some gd
                  \<and> py_truthy gd \<and> fix_geojson_structure frames gd = Inr gd'
                  \<and> shape eng gd' = Inr geom \<and> fix_polygon_validity eng geom = Inr None))
         \<and> (\<forall>feat. fate eng frames feat = EmptyResult \<longleftrightarrow>
               (\<exists>fkvs gd gd' geom g. feat = JObj fkvs \<and> map_of fkvs ''geometry'' = Some gd
                  \<and> py_truthy gd \<and> fix_geojson_structure frames gd = Inr gd'
                  \<and> shape eng gd' = Inr geom
                  \<and> fix_polygon_validity eng geom = Inr (Some g) \<and> \<not> truthy eng g))"
proof -
  from run_succeededD[OF assms] obtain kvs feats evs fixed where
    r: "load_input fs = Inr (JObj kvs)"
       "py_iter (case map_of kvs ''features'' of None \<Rightarrow> JList [] | Some v \<Rightarrow> v) = Inr feats"
       "feature_loop eng frames (length feats) feats [] 0 = (evs, Inr fixed)"
       "repair_geojson_no_gpd eng frames fs =
             [Progress 10, Progress 30] @ evs
              @ [OpenOutput,
                 JsonDump (JObj (AList.update ''features'' (JList fixed) kvs)) False 2,
                 Progress 100, ShowInfo]"
    by blast
  let ?survivors = "List.map_filter (survivor eng frames) feats"
  from r(3) have "snd (feature_loop eng frames (length feats) feats [] 0) = Inr fixed"
    by simp
  from loop_survivors[OF this]
  have fixed: "fixed = ?survivors"
    and na: "\<forall>feat \<in> set feats. \<forall>e. fate eng frames feat \<noteq> Aborts e"
    by simp_all
  have "filter is_output evs = []"
    using loop_no_output[of eng frames "length feats" feats "[]" 0] r(3) by simp
  with r(4) fixed have out: "filter is_output (repair_geojson_no_gpd eng frames fs)
             = [OpenOutput,
                JsonDump (JObj (AList.update ''features'' (JList ?survivors) kvs)) False 2]"
    by simp
  have each: "\<forall>feat \<in> set feats.
               (\<exists>f. survivor eng frames feat = Some f) \<or> dropped eng frames feat"
  proof
    fix feat assume "feat \<in> set feats"
    with na have "\<forall>e. fate eng frames feat \<noteq> Aborts e" by blast
    from survivor_None_dropped[OF this]
    show "(\<exists>f. survivor eng frames feat = Some f) \<or> dropped eng frames feat"
      by (cases "survivor eng frames feat") simp_all
  qed
  note len = survivors_count[OF na]
  from r(1,2) out each len show ?thesis
    unfolding survivor_iff fate_NoGeometry_iff fate_ParseFailure_iff fate_Unrepairable_iff
      fate_EmptyResult_iff
    by blast
qed

text \<open>
  Claim C4, as amended, on a collection of a valid polygon, a bare ring, coordinates that
  do not parse, a geometry that cannot be repaired, a null geometry and an empty
  polygon: the first two are written, in order, and each of the other four is dropped in
  its own way.
\<close>

theorem survivors_in_order_witness:
  "succeeded (repair_geojson_no_gpd stub_engine 1000
               (good_files (collection [feature_a, feature_b, feature_c, feature_e,
                                        feature_d, feature_f])))
   \<and> filter is_output (repair_geojson_no_gpd stub_engine 1000
               (good_files (collection [feature_a, feature_b, feature_c, feature_e,
                                        feature_d, feature_f])))
      = [OpenOutput,
         JsonDump (collection [feature_a, feature ''b'' (polygon (JList [ring]))]) False 2]
   \<and> survivor stub_engine 1000 feature_a = Some feature_a
   \<and> survivor stub_engine 1000 feature_b = Some (feature ''b'' (polygon (JList [ring])))
   \<and> fate stub_engine 1000 feature_c = ParseFailure
   \<and> fate stub_engine 1000 feature_e = Unrepairable
   \<and> fate stub_engine 1000 feature_d = NoGeometry
   \<and> fate stub_engine 1000 feature_f = EmptyResult
   \<and> length [feature_a, feature ''b'' (polygon (JList [ring]))]
       = length [feature_a, feature_b, feature_c, feature_e, feature_d, feature_f]
         - length (filter (dropped stub_engine 1000)
                     [feature_a, feature_b, feature_c, feature_e, feature_d, feature_f])"
  using survivors_in_order
    [of stub_engine 1000
        "good_files (collection [feature_a, feature_b, feature_c, feature_e,
                                 feature_d, feature_f])"]
  by (simp add: sample_defs run_defs succeeded_def survivor_def fate_def dropped_def)

text \<open>
  Claim C4 as stated fails: of a valid feature, a feature with a null geometry and a
  feature with an empty polygon, a successful run writes the first only, although none
  of the three fails to parse or to be repaired: the output count is 1 and not 3 - 0.
\<close>

theorem dropped_count_counterexample:
  "succeeded (repair_geojson_no_gpd stub_engine 1000
               (good_files (collection [feature_a, feature_d, feature_f])))
   \<and> filter is_output (repair_geojson_no_gpd stub_engine 1000
               (good_files (collection [feature_a, feature_d, feature_f])))
      = [OpenOutput, JsonDump (collection [feature_a]) False 2]
   \<and> filter (parse_or_repair_failure stub_engine 1000) [feature_a, feature_d, feature_f] = []
   \<and> length [feature_a]
       \<noteq> length [feature_a, feature_d, feature_f]
         - length (filter (parse_or_repair_failure stub_engine 1000)
                     [feature_a, feature_d, feature_f])"
  by (simp add: sample_defs run_defs succeeded_def fate_def parse_or_repair_failure_def)

section \<open>Progress\<close>

lemma progress_values_append [simp]:
  "progress_values (xs @ ys) = progress_values xs @ progress_values ys"
  by (induction xs rule: progress_values.induct) simp_all

lemma loop_progress_values:
  "\<exists>m. m \<le> length feats
     \<and> progress_values (fst (feature_loop eng frames n feats fixed d))
         = map (progress_at n) [d + 1 ..< d + 1 + m]"
proof (induction feats arbitrary: fixed d)
  case Nil
  show ?case by simp
next
  case (Cons feat rest)
  show ?case
  proof (cases "process_feature eng frames feat")
    case (Inl e)
    then show ?thesis by (intro exI[of _ 0]) simp
  next
    case (Inr ex)
    show ?thesis
    proof (cases ex)
      case Continue
      from Cons.IH[of fixed d] obtain m where
        "m \<le> length rest"
        "progress_values (fst (feature_loop eng frames n rest fixed d))
           = map (progress_at n) [d + 1 ..< d + 1 + m]"
        by blast
      with Inr Continue show ?thesis
        by (intro exI[of _ m]) simp
    next
      case (FallThrough kept)
      let ?fixed' = "case kept of None \<Rightarrow> fixed | Some f \<Rightarrow> fixed @ [f]"
      from Cons.IH[of ?fixed' "d + 1"] obtain m where
        m: "m \<le> length rest"
        "progress_values (fst (feature_loop eng frames n rest ?fixed' (d + 1)))
           = map (progress_at n) [d + 1 + 1 ..< d + 1 + 1 + m]"
        by blast
      have "[d + 1 ..< d + 1 + Suc m] = (d + 1) # [d + 1 + 1 ..< d + 1 + 1 + m]"
        by (simp add: upt_rec)
      with Inr FallThrough m show ?thesis
        by (intro exI[of _ "Suc m"]) (simp add: Let_def progress_at_def)
    qed
  qed
qed

lemma progress_at_mono: "i \<le> j \<Longrightarrow> progress_at n i \<le> progress_at n j"
  by (simp add: progress_at_def zdiv_mono1)

lemma progress_at_bounds:
  assumes "i \<le> n"
  shows "30 \<le> progress_at n i \<and> progress_at n i \<le> 90"
proof -
  have "0 \<le> (60 * int i) div int (max 1 n)"
    by (simp add: pos_imp_zdiv_nonneg_iff)
  moreover have "(60 * int i) div int (max 1 n) \<le> (60 * int (max 1 n)) div int (max 1 n)"
    using assms by (intro zdiv_mono1) auto
  then have "(60 * int i) div int (max 1 n) \<le> 60" by simp
  ultimately show ?thesis by (simp add: progress_at_def)
qed

text \<open>
  On a successful run over \<open>n\<close> features the progress variable is set to 10, 30, the
  values of the formula for the first \<open>m\<close> counts, where \<open>m\<close> is the number of features
  that reached the end of the loop body, and 100.
\<close>

lemma progress_of_successful_run:
  assumes "succeeded (repair_geojson_no_gpd eng frames fs)"
  shows "\<exists>n m. m \<le> n
           \<and> progress_values (repair_geojson_no_gpd eng frames fs)
               = [10, 30] @ map (progress_at n) [1 ..< 1 + m] @ [100]"
proof -
  from run_succeededD[OF assms] obtain feats evs fixed kvs where
    r: "feature_loop eng frames (length feats) feats [] 0 = (evs, Inr fixed)"
       "repair_geojson_no_gpd eng frames fs =
             [Progress 10, Progress 30] @ evs
              @ [OpenOutput,
                 JsonDump (JObj (AList.update ''features'' (JList fixed) kvs)) False 2,
                 Progress 100, ShowInfo]"
    by blast
  from loop_progress_values[of feats eng frames "length feats" "[]" 0] r(1) obtain m where
    m: "m \<le> length feats" "progress_values evs = map (progress_at (length feats)) [1 ..< 1 + m]"
    by auto
  from r(2) m(2) have "progress_values (repair_geojson_no_gpd eng frames fs)
               = [10, 30] @ map (progress_at (length feats)) [1 ..< 1 + m] @ [100]"
    by simp
  with m(1) show ?thesis by blast
qed

lemma progress_monotone_bounded:
  assumes "succeeded (repair_geojson_no_gpd eng frames fs)"
  shows "sorted (progress_values (repair_geojson_no_gpd eng frames fs))
       \<and> (\<forall>v \<in> set (progress_values (repair_geojson_no_gpd eng frames fs)). 0 \<le> v \<and> v \<le> 100)
       \<and> last (progress_values (repair_geojson_no_gpd eng frames fs)) = 100"
proof -
  from progress_of_successful_run[OF assms] obtain n m where
    nm: "m \<le> n"
    "progress_values (repair_geojson_no_gpd eng frames fs)
               = [10, 30] @ map (progress_at n) [1 ..< 1 + m] @ [100]"
    by blast
  let ?mid = "map (progress_at n) [1 ..< 1 + m]"
  have b: "\<forall>v \<in> set ?mid. 30 \<le> v \<and> v \<le> 90"
    using progress_at_bounds[of _ n] nm(1) by auto
  have "sorted_wrt (\<lambda>x y. progress_at n x \<le> progress_at n y) [1 ..< 1 + m]"
    by (rule sorted_wrt_mono_rel[OF _ sorted_wrt_upt]) (simp add: progress_at_mono)
  then have s: "sorted ?mid" by (simp add: sorted_map)
  from s b have "sorted ([10, 30] @ ?mid @ [100])"
    by (auto simp: sorted_append)
  moreover from b have "\<forall>v \<in> set ([10, 30] @ ?mid @ [100]). 0 \<le> v \<and> v \<le> 100"
    by auto
  moreover have "last ([10, 30] @ ?mid @ [100]) = 100" by simp
  ultimately show ?thesis unfolding nm(2) by blast
qed

text \<open>
  Claim C6 at a document whose only feature has a geometry that does not parse: the
  run succeeds and the progress variable is set to 10, 30 and 100. The \<^verbatim>\<open>continue\<close> of
  the parse failure skips \<^verbatim>\<open>done += 1\<close> and the progress update, so the value
  \<open>30 + 60 * 1 div 1 = 90\<close> that the claim gives for the first feature is never set.
\<close>

theorem progress_skips_unparseable:
  "repair_geojson_no_gpd stub_engine 1000 (good_files (collection [feature_c]))
     = [Progress 10, Progress 30, OpenOutput, JsonDump (collection []) False 2,
        Progress 100, ShowInfo]
   \<and> progress_values
       (repair_geojson_no_gpd stub_engine 1000 (good_files (collection [feature_c])))
     = [10, 30, 100]"
  by (simp add: sample_defs run_defs)

end
